theory Spec2Isabelle
  imports Complex_Main "HOL-Library.Multiset" "HOL-Library.Sublist"
begin

section \<open>Basket KPIs API: a shallow embedding of main.py\<close>

text \<open>
  The service loads one CSV file into a pandas DataFrame at startup and answers four GET
  endpoints from it. The embedding follows main.py function by function.

  Conventions of the model.
  \<^item> A numeric cell is an exact rational; \<open>None\<close> is NaN (a missing value). The float64
    arithmetic of pandas is idealised as exact arithmetic. Cells holding text are outside
    the model (the code never reads the one column where the data model allows text,
    \<open>order_id\<close>).
  \<^item> A DataFrame is its header (the column labels in file order) and its rows; a row
    maps a column label to its cell.
  \<^item> A pandas Series is the list of its (label, value) pairs in Series order; where only
    the values matter (the row sums) it is the list of values.
  \<^item> A raised exception is the \<open>Inl\<close> branch of a sum type.
  \<^item> \<open>sort_values\<close> is called with its default \<open>kind='quicksort'\<close>, which pandas documents
    as not stable. Its result is therefore described by a relation: any rearrangement of
    the Series that is in descending order of value is a possible result.
\<close>

subsection \<open>Python and pandas primitives\<close>

type_synonym cell = "rat option"

text \<open>\<open>int(x)\<close> on a float: truncation towards zero.\<close>

definition py_int :: "rat \<Rightarrow> int" where
  "py_int x = (if 0 \<le> x then \<lfloor>x\<rfloor> else \<lceil>x\<rceil>)"

text \<open>
  \<open>round(x, ndigits)\<close>: the nearest multiple of \<open>10 ^ - ndigits\<close>, an exact tie going to
  the even neighbour; NaN stays NaN. (On binary floats a decimal tie such as 0.005 is
  not representable and may go either way; no theorem below depends on how a tie is
  resolved.)
\<close>

definition round_half_even :: "rat \<Rightarrow> int" where
  "round_half_even x =
     (let f = \<lfloor>x\<rfloor>; d = x - of_int f
      in if d < 1 / 2 then f else if 1 / 2 < d then f + 1 else if even f then f else f + 1)"

definition py_round :: "cell \<Rightarrow> nat \<Rightarrow> cell" where
  "py_round x ndigits =
     (case x of
        None \<Rightarrow> None
      | Some v \<Rightarrow> Some (of_int (round_half_even (v * 10 ^ ndigits)) / 10 ^ ndigits))"

text \<open>\<open>str(n)\<close> for an integer, as an f-string prints it.\<close>

fun str_nat :: "nat \<Rightarrow> string" where
  "str_nat n =
     (if n < 10 then [''0123456789'' ! n]
      else str_nat (n div 10) @ [''0123456789'' ! (n mod 10)])"

declare str_nat.simps [simp del]

definition str :: "int \<Rightarrow> string" where
  "str i = (if i < 0 then CHR ''-'' # str_nat (nat (- i)) else str_nat (nat i))"

datatype exn =
    HTTPException nat string
  | RequestValidationError "(string \<times> string) list"
  | FileNotFoundError
  | KeyError
  | ValueError

record dataframe =
  columns :: "string list"
  rows :: "(string \<Rightarrow> cell) list"

text \<open>\<open>len(df)\<close>, \<open>df[col]\<close> and \<open>df[cols]\<close>; a label that is not in the header raises KeyError.\<close>

definition len :: "dataframe \<Rightarrow> int" where
  "len d = int (length (rows d))"

definition getitem :: "dataframe \<Rightarrow> string \<Rightarrow> exn + cell list" where
  "getitem d col =
     (if col \<in> set (columns d) then Inr (map (\<lambda>r. r col) (rows d)) else Inl KeyError)"

definition getitems :: "dataframe \<Rightarrow> string list \<Rightarrow> exn + dataframe" where
  "getitems d cols =
     (if set cols \<subseteq> set (columns d) then Inr \<lparr>columns = cols, rows = rows d\<rparr>
      else Inl KeyError)"

text \<open>\<open>fillna(0)\<close> on one cell.\<close>

definition fillna :: "rat \<Rightarrow> cell \<Rightarrow> cell" where
  "fillna v c = (case c of None \<Rightarrow> Some v | Some x \<Rightarrow> Some x)"

text \<open>Sums skip NaN (\<open>skipna=True\<close>); the sum of no values is 0.\<close>

definition nansum :: "cell list \<Rightarrow> rat" where
  "nansum xs = sum_list (map (\<lambda>c. case c of None \<Rightarrow> 0 | Some v \<Rightarrow> v) xs)"

text \<open>\<open>df.sum(axis=1)\<close>: one sum per row. \<open>df.sum()\<close>: one sum per column, labelled by it.\<close>

definition sum_axis1 :: "dataframe \<Rightarrow> rat list" where
  "sum_axis1 d = map (\<lambda>r. nansum (map r (columns d))) (rows d)"

definition sum_axis0 :: "dataframe \<Rightarrow> (string \<times> rat) list" where
  "sum_axis0 d = map (\<lambda>col. (col, nansum (map (\<lambda>r. r col) (rows d)))) (columns d)"

text \<open>\<open>Series.mean()\<close> and \<open>Series.median()\<close> of a Series without NaN; NaN when it is empty.\<close>

definition mean :: "rat list \<Rightarrow> cell" where
  "mean xs = (if xs = [] then None else Some (sum_list xs / of_nat (length xs)))"

definition median :: "rat list \<Rightarrow> cell" where
  "median xs =
     (let s = sort xs; n = length s
      in if n = 0 then None
         else if odd n then Some (s ! (n div 2))
         else Some ((s ! (n div 2 - 1) + s ! (n div 2)) / 2))"

text \<open>\<open>Series.head(n)\<close> for \<open>n \<ge> 0\<close>.\<close>

definition head :: "int \<Rightarrow> 'a list \<Rightarrow> 'a list" where
  "head n s = take (nat n) s"

text \<open>
  \<open>Series.sort_values(ascending=False)\<close>: \<open>sort_values_desc s r\<close> holds when \<open>r\<close> is a
  possible result for the Series \<open>s\<close>.
\<close>

definition sort_values_desc :: "('k \<times> 'v::linorder) list \<Rightarrow> ('k \<times> 'v) list \<Rightarrow> bool" where
  "sort_values_desc s r \<longleftrightarrow> mset r = mset s \<and> sorted_wrt (\<lambda>a b. snd b \<le> snd a) r"

text \<open>\<open>Series.sort_index()\<close>; the labels of the Series it is used on are distinct.\<close>

definition sort_index :: "('k::linorder \<times> 'v) list \<Rightarrow> ('k \<times> 'v) list" where
  "sort_index s = sort_key fst s"

text \<open>
  \<open>Series.value_counts()\<close>: NaN is dropped, each distinct value is counted, and the counts
  are sorted in descending order by \<open>sort_values\<close>.
\<close>

primrec dropna :: "cell list \<Rightarrow> rat list" where
  "dropna [] = []"
| "dropna (c # cs) = (case c of None \<Rightarrow> dropna cs | Some v \<Rightarrow> v # dropna cs)"

primrec unique :: "'a list \<Rightarrow> 'a list" where
  "unique [] = []"
| "unique (x # xs) = x # filter (\<lambda>y. y \<noteq> x) (unique xs)"

definition counts :: "cell list \<Rightarrow> (rat \<times> nat) list" where
  "counts col = map (\<lambda>k. (k, count_list (dropna col) k)) (unique (dropna col))"

definition value_counts :: "cell list \<Rightarrow> (rat \<times> nat) list \<Rightarrow> bool" where
  "value_counts col r \<longleftrightarrow> sort_values_desc (counts col) r"

subsection \<open>JSON values and responses\<close>

datatype json =
    JInt int
  | JFloat cell
  | JStr string
  | JArr "json list"
  | JObj "(string \<times> json) list"

text \<open>
  A response is a JSONResponse with its status code and content, or the framework's
  plain-text "Internal Server Error" (status 500) for an exception no handler takes.
\<close>

datatype response = JSONResponse nat json | InternalServerError

text \<open>Whether a JSON value holds a NaN.\<close>

fun has_nan :: "json \<Rightarrow> bool" where
  "has_nan (JInt n) = False"
| "has_nan (JFloat x) = (x = None)"
| "has_nan (JStr s) = False"
| "has_nan (JArr xs) = (\<exists>x \<in> set xs. has_nan x)"
| "has_nan (JObj kvs) = (\<exists>kv \<in> set kvs. has_nan (snd kv))"

subsection \<open>load_data and the startup hook\<close>

definition meta_cols :: "string list" where
  "meta_cols = [''order_id'', ''order_dow'', ''order_hour_of_day'', ''days_since_prior_order'']"

text \<open>The argument is the DataFrame that \<open>pd.read_csv\<close> returns for the file.\<close>

definition load_data :: "dataframe \<Rightarrow> dataframe \<times> string list" where
  "load_data data =
     (let cats = filter (\<lambda>col. col \<notin> set meta_cols) (columns data);
          data' = data\<lparr>rows :=
                    map (\<lambda>r col. if col \<in> set cats then fillna 0 (r col) else r col) (rows data)\<rparr>
      in (data', cats))"

record app_state =
  df :: "dataframe option"
  category_columns :: "string list"

definition initial_state :: app_state where
  "initial_state = \<lparr>df = None, category_columns = []\<rparr>"

text \<open>
  The startup part of \<open>lifespan\<close>. The argument is \<open>None\<close> when orders.csv does not exist,
  and the DataFrame read from the file otherwise; \<open>startup\<close> is the assignment
  \<open>df, category_columns = load_data(...)\<close>.
\<close>

definition startup :: "dataframe \<Rightarrow> app_state" where
  "startup data = (case load_data data of (d, cats) \<Rightarrow> \<lparr>df = Some d, category_columns = cats\<rparr>)"

definition lifespan :: "dataframe option \<Rightarrow> exn + app_state" where
  "lifespan csv =
     (case csv of
        None \<Rightarrow> Inl FileNotFoundError
      | Some data \<Rightarrow> Inr (startup data))"

subsection \<open>GET /health and GET /kpis\<close>

definition health :: json where
  "health = JObj [(''status'', JStr ''ok'')]"

definition get_kpis :: "app_state \<Rightarrow> exn + json" where
  "get_kpis s =
     (case df s of
        None \<Rightarrow> Inl (HTTPException 500 ''Data not loaded'')
      | Some d \<Rightarrow>
          (case getitems d (category_columns s) of
             Inl e \<Rightarrow> Inl e
           | Inr sub \<Rightarrow>
               (let items_per_order = sum_axis1 sub;
                    total_orders = len d;
                    total_items = py_int (sum_list items_per_order);
                    avg_items = mean items_per_order;
                    median_items = median items_per_order
                in Inr (JObj
                     [(''total_orders'', JInt total_orders),
                      (''total_items'', JInt total_items),
                      (''avg_items_per_order'', JFloat (py_round avg_items 2)),
                      (''median_items_per_order'', JFloat (py_round median_items 2))]))))"

subsection \<open>GET /categories/top\<close>

text \<open>One element of the list comprehension over \<open>top_n.items()\<close>.\<close>

definition category_entry :: "string \<times> rat \<Rightarrow> json" where
  "category_entry p =
     (case p of (cat, cnt) \<Rightarrow>
        JObj [(''category'', JStr cat), (''total_items'', JInt (py_int cnt))])"

inductive get_top_categories :: "app_state \<Rightarrow> int \<Rightarrow> exn + json \<Rightarrow> bool" where
  top_not_loaded:
    "df s = None \<Longrightarrow>
     get_top_categories s limit (Inl (HTTPException 500 ''Data not loaded''))"
| top_key_error:
    "df s = Some d \<Longrightarrow> getitems d (category_columns s) = Inl e \<Longrightarrow>
     get_top_categories s limit (Inl e)"
| top_ok:
    "df s = Some d \<Longrightarrow> getitems d (category_columns s) = Inr sub \<Longrightarrow>
     sort_values_desc (sum_axis0 sub) category_totals \<Longrightarrow>
     top_n = head limit category_totals \<Longrightarrow>
     get_top_categories s limit
       (Inr (JObj [(''limit'', JInt limit),
                   (''top_categories'', JArr (map category_entry top_n))]))"

subsection \<open>GET /orders/distribution\<close>

definition day_names :: "int \<rightharpoonup> string" where
  "day_names =
     [0 \<mapsto> ''Sunday'', 1 \<mapsto> ''Monday'', 2 \<mapsto> ''Tuesday'', 3 \<mapsto> ''Wednesday'',
      4 \<mapsto> ''Thursday'', 5 \<mapsto> ''Friday'', 6 \<mapsto> ''Saturday'']"

definition format_hour :: "int \<Rightarrow> string" where
  "format_hour hour =
     (if hour = 0 then ''12:00 AM''
      else if hour < 12 then str hour @ '':00 AM''
      else if hour = 12 then ''12:00 PM''
      else str (hour - 12) @ '':00 PM'')"

text \<open>
  One element of the comprehension over \<open>dow_counts.items()\<close>; \<open>day_names[int(dow)]\<close>
  raises KeyError for a day outside the mapping.
\<close>

definition dow_entry :: "int \<Rightarrow> rat \<times> nat \<Rightarrow> exn + json" where
  "dow_entry tot p =
     (case p of (dow, cnt) \<Rightarrow>
        (case day_names (py_int dow) of
           None \<Rightarrow> Inl KeyError
         | Some name \<Rightarrow>
             Inr (JObj
               [(''day'', JStr name),
                (''day_number'', JInt (py_int dow)),
                (''orders'', JInt (int cnt)),
                (''percentage'', JFloat (py_round (Some ((of_nat cnt / of_int tot) * 100)) 1))])))"

text \<open>The comprehension: the first element that raises ends it.\<close>

primrec dow_distribution :: "int \<Rightarrow> (rat \<times> nat) list \<Rightarrow> exn + json list" where
  "dow_distribution tot [] = Inr []"
| "dow_distribution tot (p # ps) =
     (case dow_entry tot p of
        Inl e \<Rightarrow> Inl e
      | Inr j \<Rightarrow> (case dow_distribution tot ps of Inl e \<Rightarrow> Inl e | Inr js \<Rightarrow> Inr (j # js)))"

definition hour_entry :: "rat \<times> nat \<Rightarrow> json" where
  "hour_entry p =
     (case p of (hour, cnt) \<Rightarrow>
        JObj [(''hour'', JStr (format_hour (py_int hour))),
              (''hour_24'', JInt (py_int hour)),
              (''orders'', JInt (int cnt))])"

definition distribution_body :: "int \<Rightarrow> json list \<Rightarrow> json list \<Rightarrow> json" where
  "distribution_body tot dow_dist top_hours =
     JObj [(''summary'', JObj [(''total_orders'', JInt tot),
                               (''analysis_period'', JStr ''All available data'')]),
           (''day_of_week_distribution'', JArr dow_dist),
           (''peak_hours'', JArr top_hours)]"

inductive get_order_distribution :: "app_state \<Rightarrow> exn + json \<Rightarrow> bool" where
  dist_not_loaded:
    "df s = None \<Longrightarrow>
     get_order_distribution s (Inl (HTTPException 500 ''Data not loaded''))"
| dist_no_dow:
    "df s = Some d \<Longrightarrow> getitem d ''order_dow'' = Inl e \<Longrightarrow>
     get_order_distribution s (Inl e)"
| dist_bad_day:
    "df s = Some d \<Longrightarrow> getitem d ''order_dow'' = Inr dows \<Longrightarrow>
     value_counts dows vc \<Longrightarrow> dow_counts = sort_index vc \<Longrightarrow>
     dow_distribution (len d) dow_counts = Inl e \<Longrightarrow>
     get_order_distribution s (Inl e)"
| dist_no_hour:
    "df s = Some d \<Longrightarrow> getitem d ''order_dow'' = Inr dows \<Longrightarrow>
     value_counts dows vc \<Longrightarrow> dow_counts = sort_index vc \<Longrightarrow>
     dow_distribution (len d) dow_counts = Inr dow_dist \<Longrightarrow>
     getitem d ''order_hour_of_day'' = Inl e \<Longrightarrow>
     get_order_distribution s (Inl e)"
| dist_ok:
    "df s = Some d \<Longrightarrow> getitem d ''order_dow'' = Inr dows \<Longrightarrow>
     value_counts dows vc \<Longrightarrow> dow_counts = sort_index vc \<Longrightarrow>
     dow_distribution (len d) dow_counts = Inr dow_dist \<Longrightarrow>
     getitem d ''order_hour_of_day'' = Inr hours \<Longrightarrow>
     value_counts hours hc \<Longrightarrow> sort_values_desc hc hc' \<Longrightarrow>
     hour_counts = head 10 hc' \<Longrightarrow>
     get_order_distribution s
       (Inr (distribution_body (len d) dow_dist (map hour_entry hour_counts)))"

subsection \<open>Query validation, exception handlers and the application\<close>

text \<open>
  The value of the \<open>limit\<close> query parameter as the framework sees it: absent, text that is
  not an integer, or an integer. (The framework's reading of text as an integer is not
  part of main.py.)
\<close>

datatype query_value = Absent | NotAnInteger string | IntegerValue int

datatype request = Health | Kpis | CategoriesTop query_value | OrdersDistribution

text \<open>\<open>limit: int = Query(default=10, ge=1, le=100)\<close>.\<close>

definition validate_limit :: "query_value \<Rightarrow> exn + int" where
  "validate_limit q =
     (case q of
        Absent \<Rightarrow> Inr 10
      | NotAnInteger t \<Rightarrow> Inl (RequestValidationError [(''limit'', ''int_parsing'')])
      | IntegerValue n \<Rightarrow>
          if n < 1 then Inl (RequestValidationError [(''limit'', ''greater_than_equal'')])
          else if 100 < n then Inl (RequestValidationError [(''limit'', ''less_than_equal'')])
          else Inr n)"

definition http_exception_handler :: "nat \<Rightarrow> string \<Rightarrow> response" where
  "http_exception_handler status_code detail =
     JSONResponse status_code (JObj [(''status'', JStr ''error''), (''message'', JStr detail)])"

definition validation_exception_handler :: "(string \<times> string) list \<Rightarrow> response" where
  "validation_exception_handler errors =
     JSONResponse 400
       (JObj [(''status'', JStr ''error''),
              (''message'', JStr ''Invalid query parameter: limit must be between 1 and 100'')])"

text \<open>
  Rendering the content of a JSONResponse: \<open>json.dumps(..., allow_nan=False)\<close> raises
  ValueError on NaN.
\<close>

definition render :: "json \<Rightarrow> exn + json" where
  "render content = (if has_nan content then Inl ValueError else Inr content)"

text \<open>
  From the outcome of an endpoint to the response: the registered handler for a raised
  exception, status 200 with the rendered content for a returned value, and the
  framework's 500 for any exception without a handler.
\<close>

definition respond :: "exn + json \<Rightarrow> response" where
  "respond out =
     (case out of
        Inl (HTTPException status_code detail) \<Rightarrow> http_exception_handler status_code detail
      | Inl (RequestValidationError errors) \<Rightarrow> validation_exception_handler errors
      | Inl _ \<Rightarrow> InternalServerError
      | Inr content \<Rightarrow>
          (case render content of
             Inl _ \<Rightarrow> InternalServerError
           | Inr rendered \<Rightarrow> JSONResponse 200 rendered))"

text \<open>Routing: the parameters of an endpoint are validated before its body runs.\<close>

inductive endpoint :: "app_state \<Rightarrow> request \<Rightarrow> exn + json \<Rightarrow> bool" where
  route_health: "endpoint s Health (Inr health)"
| route_kpis: "endpoint s Kpis (get_kpis s)"
| route_top_invalid:
    "validate_limit q = Inl e \<Longrightarrow> endpoint s (CategoriesTop q) (Inl e)"
| route_top:
    "validate_limit q = Inr limit \<Longrightarrow> get_top_categories s limit out \<Longrightarrow>
     endpoint s (CategoriesTop q) out"
| route_distribution:
    "get_order_distribution s out \<Longrightarrow> endpoint s OrdersDistribution out"

text \<open>
  Serving one request: the response, and the state after it. No endpoint assigns the
  globals \<open>df\<close> and \<open>category_columns\<close>.
\<close>

inductive serve :: "app_state \<Rightarrow> request \<Rightarrow> app_state \<times> response \<Rightarrow> bool" where
  serve_request: "endpoint s req out \<Longrightarrow> serve s req (s, respond out)"

subsection \<open>Reading a response, and example tables\<close>


text \<open>
  The DataFrame of a file with the given header line and data lines; an empty field is
  \<open>None\<close>.
\<close>

definition read_csv :: "string list \<Rightarrow> cell list list \<Rightarrow> dataframe" where
  "read_csv header body =
     \<lparr>columns = header,
      rows = map (\<lambda>cells col. case map_of (zip header cells) col of None \<Rightarrow> None | Some c \<Rightarrow> c)
               body\<rparr>"



text \<open>
  Two orders with empty fields, where the two categories have the same total (1 and 1)
  and the two hours the same count.
\<close>

definition tied_orders :: dataframe where
  "tied_orders =
     read_csv
       [''order_id'', ''order_dow'', ''order_hour_of_day'', ''days_since_prior_order'',
        ''apples'', ''bread'']
       [[Some 1, Some 0, Some 9, None, Some 1, None],
        [Some 2, Some 3, Some 17, Some 4, None, Some 1]]"

section \<open>Properties\<close>

subsection \<open>Responses to invalid requests and to requests before the data is loaded\<close>

lemma serve_iff:
  "serve s req (s', r) \<longleftrightarrow> s' = s \<and> (\<exists>out. endpoint s req out \<and> r = respond out)"
  by (auto simp: serve.simps)

lemma endpoint_invalid_limit:
  "validate_limit q = Inl e \<Longrightarrow> endpoint s (CategoriesTop q) out \<longleftrightarrow> out = Inl e"
  by (auto simp: endpoint.simps)

lemma validate_limit_rejects:
  assumes "q = NotAnInteger t \<or> (q = IntegerValue n \<and> (n < 1 \<or> 100 < n))"
  shows "\<exists>errors. validate_limit q = Inl (RequestValidationError errors)"
  using assms by (auto simp: validate_limit_def)

lemma respond_validation_error:
  "respond (Inl (RequestValidationError errors)) =
     JSONResponse 400
       (JObj [(''status'', JStr ''error''),
              (''message'', JStr ''Invalid query parameter: limit must be between 1 and 100'')])"
  by (simp add: respond_def validation_exception_handler_def)

lemma respond_not_loaded:
  "respond (Inl (HTTPException 500 ''Data not loaded'')) =
     JSONResponse 500 (JObj [(''status'', JStr ''error''), (''message'', JStr ''Data not loaded'')])"
  by (simp add: respond_def http_exception_handler_def)

lemma endpoint_not_loaded:
  assumes "df s = None"
    and "req = Kpis \<or> req = OrdersDistribution \<or>
         (req = CategoriesTop q \<and> validate_limit q = Inr limit)"
  shows "endpoint s req out \<longleftrightarrow> out = Inl (HTTPException 500 ''Data not loaded'')"
  using assms
  by (auto simp: endpoint.simps get_top_categories.simps get_order_distribution.simps get_kpis_def)

text \<open>
  Claim C3. A request to GET /categories/top whose \<open>limit\<close> is not an integer, or is an
  integer outside 1..100, has exactly one response, in every state of the application
  (loaded or not): status 400 with the fixed error body, and the message of that body
  contains "limit must be between 1 and 100". It is never a 500.
\<close>

theorem invalid_limit_is_400:
  assumes "q = NotAnInteger t \<or> (q = IntegerValue n \<and> (n < 1 \<or> 100 < n))"
  shows "(serve s (CategoriesTop q) (s', r) \<longleftrightarrow>
            s' = s \<and>
            r = JSONResponse 400
                  (JObj [(''status'', JStr ''error''),
                         (''message'',
                          JStr ''Invalid query parameter: limit must be between 1 and 100'')]))
         \<and> sublist ''limit must be between 1 and 100''
              ''Invalid query parameter: limit must be between 1 and 100''"
proof -
  from assms obtain errors where e: "validate_limit q = Inl (RequestValidationError errors)"
    using validate_limit_rejects by blast
  have "serve s (CategoriesTop q) (s', r) \<longleftrightarrow>
          s' = s \<and> r = respond (Inl (RequestValidationError errors))"
    by (simp add: serve_iff endpoint_invalid_limit [OF e])
  moreover have "sublist ''limit must be between 1 and 100''
              ''Invalid query parameter: limit must be between 1 and 100''"
    unfolding sublist_def
    by (rule exI [of _ "''Invalid query parameter: ''"], rule exI [of _ "[]"]) simp
  ultimately show ?thesis
    by (simp only: respond_validation_error simp_thms)
qed

text \<open>The three requests of the test suite: \<open>limit=0\<close>, \<open>limit=101\<close> and \<open>limit=abc\<close>.\<close>

theorem invalid_limit_is_400_witness:
  "serve initial_state (CategoriesTop (IntegerValue 0))
     (initial_state,
      JSONResponse 400
        (JObj [(''status'', JStr ''error''),
               (''message'', JStr ''Invalid query parameter: limit must be between 1 and 100'')]))
   \<and> serve initial_state (CategoriesTop (IntegerValue 101))
     (initial_state,
      JSONResponse 400
        (JObj [(''status'', JStr ''error''),
               (''message'', JStr ''Invalid query parameter: limit must be between 1 and 100'')]))
   \<and> serve initial_state (CategoriesTop (NotAnInteger ''abc''))
     (initial_state,
      JSONResponse 400
        (JObj [(''status'', JStr ''error''),
               (''message'', JStr ''Invalid query parameter: limit must be between 1 and 100'')]))"
proof -
  have a: "IntegerValue 0 = NotAnInteger [] \<or>
           (IntegerValue 0 = IntegerValue 0 \<and> ((0::int) < 1 \<or> 100 < (0::int)))"
    by simp
  have b: "IntegerValue 101 = NotAnInteger [] \<or>
           (IntegerValue 101 = IntegerValue 101 \<and> ((101::int) < 1 \<or> 100 < (101::int)))"
    by simp
  have c: "NotAnInteger ''abc'' = NotAnInteger ''abc'' \<or>
           (NotAnInteger ''abc'' = IntegerValue 0 \<and> ((0::int) < 1 \<or> 100 < (0::int)))"
    by simp
  show ?thesis
    using invalid_limit_is_400 [OF a, of initial_state initial_state]
      invalid_limit_is_400 [OF b, of initial_state initial_state]
      invalid_limit_is_400 [OF c, of initial_state initial_state]
    by simp
qed

text \<open>
  Claim C7, as stated, fails: the parameters of an endpoint are validated before its body
  runs, so GET /categories/top?limit=0 on an application whose table is not loaded is
  answered 400 with the limit message, not 500 "Data not loaded".
\<close>

theorem not_loaded_invalid_limit_is_400:
  "serve initial_state (CategoriesTop (IntegerValue 0))
     (initial_state,
      JSONResponse 400
        (JObj [(''status'', JStr ''error''),
               (''message'', JStr ''Invalid query parameter: limit must be between 1 and 100'')]))
   \<and> \<not> serve initial_state (CategoriesTop (IntegerValue 0))
     (initial_state,
      JSONResponse 500 (JObj [(''status'', JStr ''error''), (''message'', JStr ''Data not loaded'')]))
   \<and> df initial_state = None"
proof -
  have e: "validate_limit (IntegerValue 0) =
             Inl (RequestValidationError [(''limit'', ''greater_than_equal'')])"
    by (simp add: validate_limit_def)
  show ?thesis
    by (simp add: serve_iff endpoint_invalid_limit [OF e] respond_validation_error
        initial_state_def)
qed

text \<open>
  Claim C7, amended. When the table is not loaded (\<open>df\<close> is \<open>None\<close>), a request to GET /kpis,
  to GET /orders/distribution, or to GET /categories/top with a \<open>limit\<close> that passes
  validation has exactly one response: status 500 with the body
  \<open>{"status": "error", "message": "Data not loaded"}\<close>; the state is unchanged.
\<close>

theorem not_loaded_is_500:
  assumes "df s = None"
    and "req = Kpis \<or> req = OrdersDistribution \<or>
         (req = CategoriesTop q \<and> validate_limit q = Inr limit)"
  shows "serve s req (s', r) \<longleftrightarrow>
           s' = s \<and>
           r = JSONResponse 500
                 (JObj [(''status'', JStr ''error''), (''message'', JStr ''Data not loaded'')])"
  by (simp add: serve_iff endpoint_not_loaded [OF assms] respond_not_loaded)

theorem not_loaded_is_500_witness:
  "serve initial_state Kpis
     (initial_state,
      JSONResponse 500 (JObj [(''status'', JStr ''error''), (''message'', JStr ''Data not loaded'')]))
   \<and> serve initial_state OrdersDistribution
     (initial_state,
      JSONResponse 500 (JObj [(''status'', JStr ''error''), (''message'', JStr ''Data not loaded'')]))
   \<and> serve initial_state (CategoriesTop (IntegerValue 5))
     (initial_state,
      JSONResponse 500 (JObj [(''status'', JStr ''error''), (''message'', JStr ''Data not loaded'')]))"
proof -
  have n: "df initial_state = None"
    by (simp add: initial_state_def)
  have a: "Kpis = Kpis \<or> Kpis = OrdersDistribution \<or>
           (Kpis = CategoriesTop Absent \<and> validate_limit Absent = Inr 10)"
    by simp
  have b: "OrdersDistribution = Kpis \<or> OrdersDistribution = OrdersDistribution \<or>
           (OrdersDistribution = CategoriesTop Absent \<and> validate_limit Absent = Inr 10)"
    by simp
  have c: "CategoriesTop (IntegerValue 5) = Kpis \<or>
           CategoriesTop (IntegerValue 5) = OrdersDistribution \<or>
           (CategoriesTop (IntegerValue 5) = CategoriesTop (IntegerValue 5) \<and>
            validate_limit (IntegerValue 5) = Inr 5)"
    by (simp add: validate_limit_def)
  show ?thesis
    using not_loaded_is_500 [OF n a, of initial_state]
      not_loaded_is_500 [OF n b, of initial_state]
      not_loaded_is_500 [OF n c, of initial_state]
    by simp
qed

text \<open>
  Claim C10. The handler registered for RequestValidationError ignores the exception it
  is given: whatever the failed parameter and the reason, it returns status 400 with the
  one fixed body, whose message names \<open>limit\<close>; and that handler is what turns every
  validation failure of an endpoint into the response.
\<close>

theorem validation_handler_fixed_body:
  "validation_exception_handler errors =
     JSONResponse 400
       (JObj [(''status'', JStr ''error''),
              (''message'', JStr ''Invalid query parameter: limit must be between 1 and 100'')])
   \<and> respond (Inl (RequestValidationError errors)) =
     JSONResponse 400
       (JObj [(''status'', JStr ''error''),
              (''message'', JStr ''Invalid query parameter: limit must be between 1 and 100'')])"
  by (simp add: validation_exception_handler_def respond_def)

theorem validation_handler_fixed_body_witness:
  "validation_exception_handler [(''offset'', ''int_parsing'')] =
     JSONResponse 400
       (JObj [(''status'', JStr ''error''),
              (''message'', JStr ''Invalid query parameter: limit must be between 1 and 100'')])"
  using validation_handler_fixed_body [of "[(''offset'', ''int_parsing'')]"] by (rule conjunct1)

subsection \<open>The hour strings\<close>

lemma py_int_of_int: "py_int (of_int h) = h"
  by (simp add: py_int_def)

text \<open>
  Claim C6. The 24 hours 0..23 are formatted as the 12-hour clock strings below (0 is
  "12:00 AM", 1..11 are "h:00 AM", 12 is "12:00 PM", 13..23 are "(h-12):00 PM"), and the
  \<open>hour\<close> field of a peak-hours entry for the integer hour \<open>h\<close> is that string.
\<close>

theorem format_hour_12_hour_clock:
  "map format_hour [0..23] =
     [''12:00 AM'', ''1:00 AM'', ''2:00 AM'', ''3:00 AM'', ''4:00 AM'', ''5:00 AM'',
      ''6:00 AM'', ''7:00 AM'', ''8:00 AM'', ''9:00 AM'', ''10:00 AM'', ''11:00 AM'',
      ''12:00 PM'', ''1:00 PM'', ''2:00 PM'', ''3:00 PM'', ''4:00 PM'', ''5:00 PM'',
      ''6:00 PM'', ''7:00 PM'', ''8:00 PM'', ''9:00 PM'', ''10:00 PM'', ''11:00 PM'']
   \<and> hour_entry (of_int h, c) =
       JObj [(''hour'', JStr (format_hour h)), (''hour_24'', JInt h), (''orders'', JInt (int c))]"
proof
  show "map format_hour [0..23] =
     [''12:00 AM'', ''1:00 AM'', ''2:00 AM'', ''3:00 AM'', ''4:00 AM'', ''5:00 AM'',
      ''6:00 AM'', ''7:00 AM'', ''8:00 AM'', ''9:00 AM'', ''10:00 AM'', ''11:00 AM'',
      ''12:00 PM'', ''1:00 PM'', ''2:00 PM'', ''3:00 PM'', ''4:00 PM'', ''5:00 PM'',
      ''6:00 PM'', ''7:00 PM'', ''8:00 PM'', ''9:00 PM'', ''10:00 PM'', ''11:00 PM'']"
    by code_simp
  show "hour_entry (of_int h, c) =
       JObj [(''hour'', JStr (format_hour h)), (''hour_24'', JInt h), (''orders'', JInt (int c))]"
    by (simp add: hour_entry_def py_int_of_int)
qed

theorem format_hour_12_hour_clock_witness:
  "hour_entry (13, 2) =
     JObj [(''hour'', JStr ''1:00 PM''), (''hour_24'', JInt 13), (''orders'', JInt 2)]"
proof -
  have f: "format_hour 13 = ''1:00 PM''"
    by code_simp
  show ?thesis
    using format_hour_12_hour_clock [of 13 2] by (simp add: f)
qed

subsection \<open>Rounding and the median\<close>








subsection \<open>The loaded table\<close>

lemma load_data_cats:
  "snd (load_data data) = filter (\<lambda>col. col \<notin> set meta_cols) (columns data)"
  by (simp add: load_data_def Let_def)

lemma load_data_columns: "columns (fst (load_data data)) = columns data"
  by (simp add: load_data_def Let_def)

lemma load_data_rows:
  "rows (fst (load_data data)) =
     map (\<lambda>r col. if col \<in> set (snd (load_data data)) then fillna 0 (r col) else r col)
       (rows data)"
  by (simp add: load_data_def Let_def)





lemma getitem_meta:
  "col \<in> set meta_cols \<Longrightarrow> getitem (fst (load_data data)) col = getitem data col"
  by (simp add: getitem_def load_data_columns load_data_rows load_data_cats)





text \<open>
  Claim C8. For the DataFrame \<open>data\<close> read from the file, \<open>load_data\<close> returns as category
  columns exactly the columns of \<open>data\<close> that are not one of the four metadata columns, in
  header order; the returned table has the same header, every missing cell of a category
  column replaced by 0 and every other cell unchanged, so no cell of a category column is
  missing. The startup hook stores this pair as the state of the application, and serving
  a request never changes that state.
\<close>
theorem load_data_category_columns:
  assumes "load_data data = (d, cats)"
  shows "cats = filter (\<lambda>col. col \<notin> {''order_id'', ''order_dow'', ''order_hour_of_day'',
                                      ''days_since_prior_order''}) (columns data)
     \<and> set cats = set (columns data) -
         {''order_id'', ''order_dow'', ''order_hour_of_day'', ''days_since_prior_order''}
     \<and> subseq cats (columns data)
     \<and> columns d = columns data
     \<and> rows d = map (\<lambda>r col. if col \<in> set cats then (case r col of None \<Rightarrow> Some 0 | Some v \<Rightarrow> Some v)
                               else r col) (rows data)
     \<and> (\<forall>r \<in> set (rows d). \<forall>col \<in> set cats. r col \<noteq> None)
     \<and> startup data = \<lparr>df = Some d, category_columns = cats\<rparr>
     \<and> (\<forall>req s' r. serve (startup data) req (s', r) \<longrightarrow> s' = startup data)"
proof -
  have c: "cats = filter (\<lambda>col. col \<notin> {''order_id'', ''order_dow'', ''order_hour_of_day'',
                                      ''days_since_prior_order''}) (columns data)"
    using assms load_data_cats [of data] by (simp add: meta_cols_def)
  have r: "rows d = map (\<lambda>r col. if col \<in> set cats then (case r col of None \<Rightarrow> Some 0 | Some v \<Rightarrow> Some v)
                               else r col) (rows data)"
    using assms load_data_rows [of data] by (simp add: fillna_def cong: if_cong)
  have n: "\<forall>r \<in> set (rows d). \<forall>col \<in> set cats. r col \<noteq> None"
    unfolding r by (auto split: option.splits)
  have s: "set cats = set (columns data) -
         {''order_id'', ''order_dow'', ''order_hour_of_day'', ''days_since_prior_order''}"
    unfolding c by auto
  have q: "subseq cats (columns data)"
    unfolding c by (rule subseq_filter_left)
  have k: "columns d = columns data"
    using assms load_data_columns [of data] by simp
  have t: "startup data = \<lparr>df = Some d, category_columns = cats\<rparr>"
    using assms by (simp add: startup_def)
  have u: "\<forall>req s' r. serve (startup data) req (s', r) \<longrightarrow> s' = startup data"
    by (simp add: serve_iff)
  from c s q k r n t u show ?thesis
    by (intro conjI)
qed

theorem load_data_category_columns_witness:
  "snd (load_data tied_orders) = [''apples'', ''bread'']
   \<and> map (\<lambda>r. map r [''days_since_prior_order'', ''apples'', ''bread''])
        (rows (fst (load_data tied_orders))) =
      [[None, Some 1, Some 0], [Some 4, Some 0, Some 1]]"
proof -
  have h: "load_data tied_orders = (fst (load_data tied_orders), snd (load_data tied_orders))"
    by simp
  note t = load_data_category_columns [OF h]
  have c: "snd (load_data tied_orders) = [''apples'', ''bread'']"
    using t [THEN conjunct1] by (simp add: tied_orders_def read_csv_def)
  have r: "rows (fst (load_data tied_orders)) =
      map (\<lambda>r col. if col \<in> set (snd (load_data tied_orders))
                    then (case r col of None \<Rightarrow> Some 0 | Some v \<Rightarrow> Some v) else r col)
        (rows tied_orders)"
    using t by blast
  show ?thesis
    unfolding r unfolding c by (simp add: tied_orders_def read_csv_def)
qed

subsection \<open>Basket KPIs\<close>






subsection \<open>Top categories\<close>










subsection \<open>Counting values\<close>










subsection \<open>The order distribution\<close>
















subsection \<open>The percentages\<close>






end
